theory Spec2Isabelle
  imports Complex_Main
begin

section \<open>The solar-potential overlay of BuildingInsightsSection.svelte\<close>

text \<open>
  The component draws one polygon per solar panel and one outline polygon plus one label
  per roof segment, and shows or hides them from toggles. Its script is embedded here
  function by function.

  JavaScript numbers are read as real numbers: the rounding and the overflow of IEEE
  doubles are outside the model. Where the source starts from \<open>Infinity\<close>, reads a
  property of \<open>undefined\<close> or produces \<open>NaN\<close>, the model has a value of its own for it
  (\<open>bound\<close>, \<open>error\<close>, \<open>None\<close>). The spherical primitives of the mapping library are a
  parameter of every function that calls them.
\<close>

subsection \<open>Data received from the Solar API\<close>

text \<open>
  Modelled from the spec: the types of \<open>../solar\<close> are declared outside the source
  files. The records have the fields that the script reads, as the data model of the
  spec names them: a panel with its centre, orientation, segment index and yearly yield,
  a roof segment with its centre and azimuth, and the building with the panel size, the
  panels by descending yield, the segments and the panel-count configurations.
\<close>

record LatLng =
  latitude :: real
  longitude :: real

record SolarPanel =
  center :: LatLng
  orientation :: string
  segmentIndex :: int
  yearlyEnergyDcKwh :: real

record RoofSegmentStats =
  center :: LatLng
  azimuthDegrees :: real

record SolarPanelConfig =
  panelsCount :: int
  yearlyEnergyDcKwh :: real

record SolarPotential =
  panelCapacityWatts :: real
  panelWidthMeters :: real
  panelHeightMeters :: real
  solarPanels :: "SolarPanel list"
  roofSegmentStats :: "RoofSegmentStats list"
  solarPanelConfigs :: "SolarPanelConfig list"

record BuildingInsightsResponse =
  solarPotential :: SolarPotential

record RequestError =
  code :: int
  status :: string
  message :: string

subsection \<open>Objects of the mapping library\<close>

text \<open>\<open>google.maps.LatLngLiteral\<close>: the \<open>{lat, lng}\<close> objects the script builds.\<close>

record LatLngLiteral =
  lat :: real
  lng :: real

text \<open>
  \<open>geometryLibrary.spherical\<close>: \<open>computeOffset from distance heading\<close>,
  \<open>computeHeading from to\<close> and \<open>computeDistanceBetween from to\<close>.
\<close>

record Spherical =
  computeOffset :: "LatLngLiteral \<Rightarrow> real \<Rightarrow> real \<Rightarrow> LatLngLiteral"
  computeHeading :: "LatLngLiteral \<Rightarrow> LatLngLiteral \<Rightarrow> real"
  computeDistanceBetween :: "LatLngLiteral \<Rightarrow> LatLngLiteral \<Rightarrow> real"

text \<open>
  \<open>google.maps.Polygon\<close>: its path, its fill colour (\<open>None\<close> for \<open>undefined\<close>), whether
  \<open>setMap\<close> last attached it to the map (a new polygon is attached to none), and the
  custom property \<open>segmentIndex\<close> that the script adds to segment outlines.
\<close>

record Polygon =
  paths :: "LatLngLiteral list"
  fillColor :: "string option"
  onMap :: bool
  segmentIndex :: "int option"

text \<open>\<open>google.maps.Marker\<close>: the label of a segment, its text is the segment index.\<close>

record Marker =
  position :: LatLngLiteral
  onMap :: bool
  segmentIndex :: int

text \<open>Reading a property of \<open>undefined\<close> throws a \<open>TypeError\<close>.\<close>

datatype error = TypeError

subsection \<open>Numeric helpers of the language\<close>

text \<open>\<open>Math.atan2(y, x)\<close>, without the sign of zero.\<close>

definition atan2 :: "real \<Rightarrow> real \<Rightarrow> real" where
  "atan2 y x =
     (if 0 < x then arctan (y / x)
      else if x < 0 then (if 0 \<le> y then arctan (y / x) + pi else arctan (y / x) - pi)
      else if 0 < y then pi / 2
      else if y < 0 then - (pi / 2)
      else 0)"

text \<open>
  The accumulators of the bounding box start at \<open>Infinity\<close> and \<open>-Infinity\<close>;
  \<open>Math.min\<close> and \<open>Math.max\<close> of an accumulator and a finite number.
\<close>

datatype bound = NegInfinity | Fin real | Infinity

fun math_min :: "bound \<Rightarrow> real \<Rightarrow> bound" where
  "math_min Infinity x = Fin x"
| "math_min (Fin a) x = Fin (min a x)"
| "math_min NegInfinity x = NegInfinity"

fun math_max :: "bound \<Rightarrow> real \<Rightarrow> bound" where
  "math_max NegInfinity x = Fin x"
| "math_max (Fin a) x = Fin (max a x)"
| "math_max Infinity x = Infinity"

subsection \<open>Colour index of a panel\<close>

text \<open>
  Modelled from the spec: \<open>normalize\<close> is imported from \<open>../visualize\<close>, which is not
  among the source files. The spec: normalize to [0,1] linearly,
  \<open>(value - min) / (max - min)\<close>, clamped to the domain; the case \<open>max = min\<close> is
  undefined in the source, here \<open>None\<close>.
\<close>

definition normalize :: "real \<Rightarrow> real \<Rightarrow> real \<Rightarrow> real option" where
  "normalize x mx mn =
     (if mx = mn then None else Some (min 1 (max 0 ((x - mn) / (mx - mn)))))"

text \<open>
  \<open>Math.round(normalize(panel.yearlyEnergyDcKwh, maxEnergy, minEnergy) * 255)\<close>;
  \<open>Math.round\<close> rounds a half up, as \<^const>\<open>round\<close> does.
\<close>

definition colorIndex :: "real \<Rightarrow> real \<Rightarrow> real \<Rightarrow> int option" where
  "colorIndex v maxEnergy minEnergy =
     map_option (\<lambda>y. round (y * 255)) (normalize v maxEnergy minEnergy)"

text \<open>\<open>palette[colorIndex]\<close>: \<open>undefined\<close> outside the palette and at \<open>NaN\<close>.\<close>

definition paletteAt :: "string list \<Rightarrow> int option \<Rightarrow> string option" where
  "paletteAt palette ci =
     (case ci of
        None \<Rightarrow> None
      | Some i \<Rightarrow> if 0 \<le> i \<and> i < int (length palette) then Some (palette ! nat i) else None)"

subsection \<open>Bounding box of a roof segment in roof-local metres\<close>

text \<open>The \<open>forEach\<close> over \<open>relativePositions\<close> that tightens the four accumulators.\<close>

definition tighten :: "real \<times> real \<Rightarrow> bound \<times> bound \<times> bound \<times> bound \<Rightarrow> bound \<times> bound \<times> bound \<times> bound" where
  "tighten pos acc =
     (case acc of (minX, maxX, minY, maxY) \<Rightarrow>
        (math_min minX (fst pos), math_max maxX (fst pos),
         math_min minY (snd pos), math_max maxY (snd pos)))"

definition tightBounds :: "(real \<times> real) list \<Rightarrow> bound \<times> bound \<times> bound \<times> bound" where
  "tightBounds relativePositions =
     fold tighten relativePositions (Infinity, NegInfinity, Infinity, NegInfinity)"

record Box =
  minX :: real
  maxX :: real
  minY :: real
  maxY :: real

text \<open>\<open>paddingX = (maxX - minX) * 0.1\<close>, and the same for y, added on both sides.\<close>

definition addPadding :: "Box \<Rightarrow> Box" where
  "addPadding b =
     (let paddingX = (maxX b - minX b) * (1 / 10);
          paddingY = (maxY b - minY b) * (1 / 10)
      in \<lparr>minX = minX b - paddingX, maxX = maxX b + paddingX,
          minY = minY b - paddingY, maxY = maxY b + paddingY\<rparr>)"

definition minSize :: real where
  "minSize = 2"

text \<open>The two \<open>if\<close>s that widen an axis shorter than \<open>minSize\<close> around its centre.\<close>

definition ensureMinSize :: "Box \<Rightarrow> Box" where
  "ensureMinSize b =
     (let b1 = (if maxX b - minX b < minSize
                then (let c = (maxX b + minX b) / 2
                      in b\<lparr>minX := c - minSize / 2, maxX := c + minSize / 2\<rparr>)
                else b)
      in if maxY b1 - minY b1 < minSize
         then (let c = (maxY b1 + minY b1) / 2
               in b1\<lparr>minY := c - minSize / 2, maxY := c + minSize / 2\<rparr>)
         else b1)"

text \<open>
  The box of a segment from the local points of its panels. The source computes it only
  under \<open>panelPositions.length > 0\<close>; the accumulators are finite then, and \<open>None\<close>
  stands for the accumulators that are not.
\<close>

definition segmentBox :: "(real \<times> real) list \<Rightarrow> Box option" where
  "segmentBox relativePositions =
     (case tightBounds relativePositions of
        (Fin x0, Fin x1, Fin y0, Fin y1) \<Rightarrow>
          Some (ensureMinSize (addPadding \<lparr>minX = x0, maxX = x1, minY = y0, maxY = y1\<rparr>))
      | _ \<Rightarrow> None)"

definition corners :: "Box \<Rightarrow> (real \<times> real) list" where
  "corners b = [(minX b, minY b), (maxX b, minY b), (maxX b, maxY b), (minX b, maxY b)]"



subsection \<open>Panel polygons\<close>

text \<open>\<open>roofSegmentStats[i]\<close>: \<open>undefined\<close> (\<open>None\<close>) outside the array.\<close>

definition segmentInfoAt :: "RoofSegmentStats list \<Rightarrow> int \<Rightarrow> RoofSegmentStats option" where
  "segmentInfoAt stats i =
     (if 0 \<le> i \<and> i < int (length stats) then Some (stats ! nat i) else None)"

text \<open>
  \<open>roofSegmentStats[i].azimuthDegrees\<close>: the source reads the property with no guard, so
  an index outside the array throws.
\<close>

definition azimuthAt :: "RoofSegmentStats list \<Rightarrow> int \<Rightarrow> error + real" where
  "azimuthAt stats i =
     (case segmentInfoAt stats i of
        None \<Rightarrow> Inl TypeError
      | Some segmentInfo \<Rightarrow> Inr (azimuthDegrees segmentInfo))"

definition panelPoints :: "real \<Rightarrow> real \<Rightarrow> (real \<times> real) list" where
  "panelPoints w h = [(w, h), (w, - h), (- w, - h), (- w, h), (w, h)]"

definition toLiteral :: "LatLng \<Rightarrow> LatLngLiteral" where
  "toLiteral c = \<lparr>lat = latitude c, lng = longitude c\<rparr>"

text \<open>The callback of \<open>solarPotential.solarPanels.map\<close>: one polygon per panel.\<close>

definition panelPolygon ::
  "Spherical \<Rightarrow> string list \<Rightarrow> SolarPotential \<Rightarrow> real \<Rightarrow> real \<Rightarrow> SolarPanel \<Rightarrow> error + Polygon" where
  "panelPolygon spherical palette sp maxEnergy minEnergy panel =
     (let w = panelWidthMeters sp / 2;
          h = panelHeightMeters sp / 2;
          points = panelPoints w h;
          rotation = (if SolarPanel.orientation panel = ''PORTRAIT'' then 90 else 0)
      in case azimuthAt (roofSegmentStats sp) (SolarPanel.segmentIndex panel) of
           Inl e \<Rightarrow> Inl e
         | Inr azimuth \<Rightarrow>
             Inr \<lparr>paths =
                    map (\<lambda>(x, y).
                          computeOffset spherical (toLiteral (SolarPanel.center panel))
                            (sqrt (x * x + y * y))
                            (atan2 y x * (180 / pi) + rotation + azimuth))
                      points,
                  fillColor =
                    paletteAt palette
                      (colorIndex (SolarPanel.yearlyEnergyDcKwh panel) maxEnergy minEnergy),
                  Polygon.onMap = False,
                  Polygon.segmentIndex = None\<rparr>)"

text \<open>\<open>Array.prototype.map\<close> with a callback that may throw: the first throw ends it.\<close>

fun mapE :: "('a \<Rightarrow> error + 'b) \<Rightarrow> 'a list \<Rightarrow> error + 'b list" where
  "mapE f [] = Inr []"
| "mapE f (x # xs) =
     (case f x of
        Inl e \<Rightarrow> Inl e
      | Inr y \<Rightarrow> (case mapE f xs of Inl e \<Rightarrow> Inl e | Inr ys \<Rightarrow> Inr (y # ys)))"

text \<open>
  Lines 171 to 201: \<open>minEnergy\<close> is read from \<open>solarPanels.slice(-1)[0]\<close>, which is
  \<open>undefined\<close> for an empty array, \<open>maxEnergy\<close> from \<open>solarPanels[0]\<close>.
\<close>

definition createPanels :: "Spherical \<Rightarrow> string list \<Rightarrow> SolarPotential \<Rightarrow> error + Polygon list" where
  "createPanels spherical palette sp =
     (case SolarPotential.solarPanels sp of
        [] \<Rightarrow> Inl TypeError
      | p # ps \<Rightarrow>
          (let minEnergy = SolarPanel.yearlyEnergyDcKwh (last (p # ps));
               maxEnergy = SolarPanel.yearlyEnergyDcKwh p
           in mapE (panelPolygon spherical palette sp maxEnergy minEnergy) (p # ps)))"

subsection \<open>Roof segment outlines and labels\<close>

text \<open>
  \<open>segmentPanels\<close> is a \<open>Map\<close> from segment index to the panels of the segment, in
  insertion order: an entry is created, empty, at the first panel of its segment, and
  the panel is pushed to it.
\<close>

definition groupPanel :: "SolarPanel \<Rightarrow> (int \<times> SolarPanel list) list \<Rightarrow> (int \<times> SolarPanel list) list" where
  "groupPanel panel m =
     (let k = SolarPanel.segmentIndex panel;
          m1 = (if k \<in> set (map fst m) then m else m @ [(k, [])])
      in map (\<lambda>(k', ps). if k' = k then (k', ps @ [panel]) else (k', ps)) m1)"

definition segmentPanels :: "SolarPanel list \<Rightarrow> (int \<times> SolarPanel list) list" where
  "segmentPanels panels = fold groupPanel panels []"

text \<open>A panel centre in the axes of the roof, from heading and distance to the segment centre.\<close>

definition relativePosition :: "Spherical \<Rightarrow> LatLngLiteral \<Rightarrow> real \<Rightarrow> SolarPanel \<Rightarrow> real \<times> real" where
  "relativePosition spherical centre azimuth panel =
     (let bearing = computeHeading spherical centre (toLiteral (SolarPanel.center panel));
          distance = computeDistanceBetween spherical centre (toLiteral (SolarPanel.center panel));
          adjustedBearing = bearing - azimuth;
          radians = adjustedBearing * pi / 180
      in (distance * sin radians, distance * cos radians))"

text \<open>A corner of the box back on the map.\<close>

definition cornerPoint :: "Spherical \<Rightarrow> LatLngLiteral \<Rightarrow> real \<Rightarrow> real \<times> real \<Rightarrow> LatLngLiteral" where
  "cornerPoint spherical centre azimuth c =
     (case c of (x, y) \<Rightarrow>
        computeOffset spherical centre (sqrt (x * x + y * y))
          (atan2 x y * (180 / pi) + azimuth))"

text \<open>
  The body of \<open>segmentPanels.forEach\<close> for one entry: \<open>Inl\<close> when it throws,
  \<open>Inr None\<close> when it pushes nothing, \<open>Inr (Some (polygon, label))\<close> when it pushes the
  outline and the label of the segment.
\<close>

definition segmentOutline ::
  "Spherical \<Rightarrow> SolarPotential \<Rightarrow> int \<times> SolarPanel list \<Rightarrow> error + (Polygon \<times> Marker) option" where
  "segmentOutline spherical sp entry =
     (case entry of (segIndex, panels) \<Rightarrow>
        (case segmentInfoAt (roofSegmentStats sp) segIndex of
           None \<Rightarrow> Inl TypeError
         | Some segmentInfo \<Rightarrow>
             (let azimuth = azimuthDegrees segmentInfo;
                  panelPositions = map (\<lambda>panel. toLiteral (SolarPanel.center panel)) panels
              in if length panelPositions > 0 then
                   (let centre = toLiteral (RoofSegmentStats.center segmentInfo);
                        relativePositions = map (relativePosition spherical centre azimuth) panels
                    in case segmentBox relativePositions of
                         None \<Rightarrow> Inr None
                       | Some box \<Rightarrow>
                           Inr (Some
                             (\<lparr>paths = map (cornerPoint spherical centre azimuth) (corners box),
                               fillColor = Some ''#FF0000'',
                               Polygon.onMap = False,
                               Polygon.segmentIndex = Some segIndex\<rparr>,
                              \<lparr>position = centre,
                               Marker.onMap = False,
                               Marker.segmentIndex = segIndex\<rparr>)))
                 else Inr None)))"

text \<open>
  \<open>segmentPanels.forEach\<close>: the outlines and labels are pushed as the loop goes, and a
  throw leaves what was pushed before it.
\<close>

fun outlineAll ::
  "Spherical \<Rightarrow> SolarPotential \<Rightarrow> (int \<times> SolarPanel list) list \<Rightarrow>
   Polygon list \<times> Marker list \<Rightarrow> error option \<times> Polygon list \<times> Marker list" where
  "outlineAll spherical sp [] (polygons, labels) = (None, polygons, labels)"
| "outlineAll spherical sp (entry # entries) (polygons, labels) =
     (case segmentOutline spherical sp entry of
        Inl e \<Rightarrow> (Some e, polygons, labels)
      | Inr None \<Rightarrow> outlineAll spherical sp entries (polygons, labels)
      | Inr (Some (polygon, label)) \<Rightarrow>
          outlineAll spherical sp entries (polygons @ [polygon], labels @ [label]))"

text \<open>Lines 203 to 366 on a building, from no outline and no label.\<close>

definition createSegments ::
  "Spherical \<Rightarrow> SolarPotential \<Rightarrow> error option \<times> Polygon list \<times> Marker list" where
  "createSegments spherical sp =
     outlineAll spherical sp (segmentPanels (SolarPotential.solarPanels sp)) ([], [])"

subsection \<open>The segment filter string\<close>

text \<open>
  \<open>String.prototype.trim\<close> and the leading white space that \<open>parseInt\<close> skips, on the
  ASCII white space and line terminators.
\<close>

definition isWhiteSpace :: "char \<Rightarrow> bool" where
  "isWhiteSpace c = (c \<in> {CHR '' '', CHR 0x09, CHR 0x0A, CHR 0x0B, CHR 0x0C, CHR 0x0D})"

definition trim :: "string \<Rightarrow> string" where
  "trim s = rev (dropWhile isWhiteSpace (rev (dropWhile isWhiteSpace s)))"

text \<open>\<open>s.split(c)\<close> for a one-character separator: the empty string gives one empty token.\<close>

fun splitOn :: "char \<Rightarrow> string \<Rightarrow> string list" where
  "splitOn c [] = [[]]"
| "splitOn c (x # xs) =
     (if x = c then [] # splitOn c xs
      else (case splitOn c xs of
              [] \<Rightarrow> [[x]]
            | t # ts \<Rightarrow> (x # t) # ts))"

text \<open>
  \<open>parseInt\<close> with no radix: white space is skipped, a sign is read, a prefix \<open>0x\<close> or
  \<open>0X\<close> selects radix 16, and the longest prefix of digits of the radix is the number;
  with no digit the result is \<open>NaN\<close>, here \<open>None\<close>.
\<close>

definition digitValue :: "char \<Rightarrow> nat option" where
  "digitValue c =
     (let n = (of_char c :: nat)
      in if 48 \<le> n \<and> n \<le> 57 then Some (n - 48)
         else if 97 \<le> n \<and> n \<le> 122 then Some (n - 87)
         else if 65 \<le> n \<and> n \<le> 90 then Some (n - 55)
         else None)"

fun digitsPrefix :: "nat \<Rightarrow> string \<Rightarrow> nat list" where
  "digitsPrefix R [] = []"
| "digitsPrefix R (c # cs) =
     (case digitValue c of
        None \<Rightarrow> []
      | Some d \<Rightarrow> if d < R then d # digitsPrefix R cs else [])"

definition parseInt :: "string \<Rightarrow> int option" where
  "parseInt inputString =
     (let S = dropWhile isWhiteSpace inputString;
          sign = (case S of [] \<Rightarrow> 1 | c # _ \<Rightarrow> if c = CHR ''-'' then - 1 else (1 :: int));
          S1 = (case S of [] \<Rightarrow> S | c # r \<Rightarrow> if c = CHR ''+'' \<or> c = CHR ''-'' then r else S);
          hex = (case S1 of
                   a # b # _ \<Rightarrow> a = CHR ''0'' \<and> (b = CHR ''x'' \<or> b = CHR ''X'')
                 | _ \<Rightarrow> False);
          R = (if hex then 16 else 10);
          S2 = (if hex then drop 2 S1 else S1);
          Z = digitsPrefix R S2
      in if Z = [] then None else Some (sign * int (foldl (\<lambda>n d. n * R + d) 0 Z)))"

text \<open>
  \<open>segmentNumbers\<close> of \<open>updateSegmentVisibility\<close>: \<open>null\<close> (\<open>None\<close>) for a blank
  filter, else the tokens that parse.
\<close>

definition segmentNumbers :: "string \<Rightarrow> int list option" where
  "segmentNumbers segmentFilter =
     (if trim segmentFilter = [] then None
      else Some (List.map_filter (\<lambda>s. parseInt (trim s)) (splitOn CHR '','' segmentFilter)))"

text \<open>
  \<open>shouldShow = showSegments && (segmentNumbers === null ||
  segmentNumbers.includes(segmentIndex))\<close>; a shape without the custom property is in no
  list of numbers.
\<close>

definition shouldShow :: "bool \<Rightarrow> int list option \<Rightarrow> int option \<Rightarrow> bool" where
  "shouldShow showSegments numbers segIndex =
     (showSegments \<and>
      (case numbers of
         None \<Rightarrow> True
       | Some ns \<Rightarrow> (case segIndex of None \<Rightarrow> False | Some i \<Rightarrow> i \<in> set ns)))"

subsection \<open>The state of the component\<close>

text \<open>
  The exported properties and the variables of the script. \<open>fetchesInFlight\<close> is not a
  variable of the script: it counts the calls of \<open>findClosestBuilding\<close> that have not
  settled yet.
\<close>

record State =
  expandedSection :: string
  buildingInsights :: "BuildingInsightsResponse option"
  configId :: "nat option"
  panelCapacityWatts :: real
  showPanels :: bool
  requestSent :: bool
  requestError :: "RequestError option"
  showSegments :: bool
  segmentFilter :: string
  disableAnimation :: bool
  panelConfig :: "SolarPanelConfig option"
  solarPanels :: "Polygon list"
  roofSegmentPolygons :: "Polygon list"
  roofSegmentLabels :: "Marker list"
  panelCapacityRatio :: real
  fetchesInFlight :: nat

definition title :: string where
  "title = ''Building Insights endpoint''"

text \<open>The initial values of the script, for given exported properties.\<close>

definition initialState ::
  "string \<Rightarrow> BuildingInsightsResponse option \<Rightarrow> nat option \<Rightarrow> real \<Rightarrow> bool \<Rightarrow> State" where
  "initialState section insights cid watts panelsShown =
     \<lparr>expandedSection = section,
      buildingInsights = insights,
      configId = cid,
      State.panelCapacityWatts = watts,
      showPanels = panelsShown,
      requestSent = False,
      requestError = None,
      showSegments = True,
      segmentFilter = [],
      disableAnimation = True,
      panelConfig = None,
      State.solarPanels = [],
      roofSegmentPolygons = [],
      roofSegmentLabels = [],
      panelCapacityRatio = 1,
      fetchesInFlight = 0\<rparr>"

subsection \<open>Visibility toggles\<close>

definition updatePanelVisibility :: "State \<Rightarrow> State" where
  "updatePanelVisibility s =
     (if length (State.solarPanels s) = 0 then s
      else s\<lparr>State.solarPanels :=
               map (\<lambda>(i, panel).
                     if disableAnimation s then panel\<lparr>Polygon.onMap := showPanels s\<rparr>
                     else panel\<lparr>Polygon.onMap :=
                            (showPanels s \<and>
                             (case panelConfig s of
                                None \<Rightarrow> False
                              | Some c \<Rightarrow> int i < panelsCount c))\<rparr>)
                 (enumerate 0 (State.solarPanels s))\<rparr>)"

definition updateSegmentVisibility :: "State \<Rightarrow> State" where
  "updateSegmentVisibility s =
     (if length (roofSegmentPolygons s) = 0 then s
      else
        (let numbers = segmentNumbers (segmentFilter s)
         in s\<lparr>roofSegmentPolygons :=
                 map (\<lambda>segment.
                       segment\<lparr>Polygon.onMap :=
                         shouldShow (showSegments s) numbers (Polygon.segmentIndex segment)\<rparr>)
                   (roofSegmentPolygons s),
               roofSegmentLabels :=
                 map (\<lambda>label.
                       label\<lparr>Marker.onMap :=
                         shouldShow (showSegments s) numbers (Some (Marker.segmentIndex label))\<rparr>)
                   (roofSegmentLabels s)\<rparr>))"

subsection \<open>Capacity scaling and the energy gauge\<close>

text \<open>
  The reactive statements that derive \<open>panelConfig\<close> and \<open>panelCapacityRatio\<close>; the
  framework runs them before the markup is rendered. A default capacity of 0 gives
  \<open>Infinity\<close> or \<open>NaN\<close> in the source, which the model has no value for.
\<close>

definition reactive :: "State \<Rightarrow> State" where
  "reactive s =
     (case buildingInsights s of
        None \<Rightarrow> s
      | Some bi \<Rightarrow>
          (let configs = solarPanelConfigs (solarPotential bi);
               s1 = (case configId s of
                       None \<Rightarrow> s
                     | Some k \<Rightarrow>
                         s\<lparr>panelConfig := (if k < length configs then Some (configs ! k) else None)\<rparr>)
           in s1\<lparr>panelCapacityRatio :=
                   State.panelCapacityWatts s1 / SolarPotential.panelCapacityWatts (solarPotential bi)\<rparr>))"

text \<open>
  The \<open>value\<close> of the "Yearly energy" gauge, \<open>None\<close> where the markup does not render it:
  on a request error, without building insights, without a selected configuration, or
  with the section collapsed.
\<close>

definition gaugeYearlyEnergy :: "State \<Rightarrow> real option" where
  "gaugeYearlyEnergy s =
     (if requestError s \<noteq> None then None
      else if buildingInsights s = None then None
      else (case (configId s, panelConfig s) of
              (Some k, Some c) \<Rightarrow>
                if expandedSection s = title
                then Some (SolarPanelConfig.yearlyEnergyDcKwh c * panelCapacityRatio s)
                else None
            | _ \<Rightarrow> None))"

subsection \<open>Fetching and rendering a location\<close>

text \<open>\<open>showSolarPotential\<close> up to its \<open>await\<close>.\<close>

definition showSolarPotential :: "State \<Rightarrow> State" where
  "showSolarPotential s =
     (if requestSent s then s
      else s\<lparr>buildingInsights := None,
             requestError := None,
             State.solarPanels := [],
             roofSegmentPolygons := [],
             roofSegmentLabels := [],
             requestSent := True,
             fetchesInFlight := Suc (fetchesInFlight s)\<rparr>)"

text \<open>
  \<open>showSolarPotential\<close> from the \<open>await\<close> on, when the fetch fails: \<open>catch\<close>, then
  \<open>finally\<close>.
\<close>

definition fetchRejected :: "RequestError \<Rightarrow> State \<Rightarrow> State" where
  "fetchRejected e s =
     s\<lparr>requestError := Some e, requestSent := False, fetchesInFlight := fetchesInFlight s - 1\<rparr>"

text \<open>
  \<open>showSolarPotential\<close> from the \<open>await\<close> on, when the fetch succeeds: \<open>finally\<close>, then
  the panels and the segments. The first component is the error that ends the call, if
  any; the state keeps what was assigned before it.
\<close>

definition fetchResolved ::
  "Spherical \<Rightarrow> string list \<Rightarrow> BuildingInsightsResponse \<Rightarrow> State \<Rightarrow> error option \<times> State" where
  "fetchResolved spherical palette bi s =
     (let s1 = s\<lparr>buildingInsights := Some bi, requestSent := False,
                 fetchesInFlight := fetchesInFlight s - 1\<rparr>;
          sp = solarPotential bi
      in case createPanels spherical palette sp of
           Inl e \<Rightarrow> (Some e, s1)
         | Inr panels \<Rightarrow>
             (let s2 = s1\<lparr>State.solarPanels := panels\<rparr>
              in case outlineAll spherical sp (segmentPanels (SolarPotential.solarPanels sp))
                        (roofSegmentPolygons s2, roofSegmentLabels s2) of
                   (err, polygons, labels) \<Rightarrow>
                     (err, s2\<lparr>roofSegmentPolygons := polygons, roofSegmentLabels := labels\<rparr>)))"

text \<open>
  What can happen to the component: a call of the entry point, the settling of a fetch
  in flight, a timer that updates visibility, an edit of a control. The reactive
  statements run after each.
\<close>

datatype event =
    CallShowSolarPotential
  | FetchResolves BuildingInsightsResponse
  | FetchRejects RequestError
  | CallUpdatePanelVisibility
  | CallUpdateSegmentVisibility
  | SetShowPanels bool
  | SetDisableAnimation bool
  | SetShowSegments bool
  | SetSegmentFilter string
  | SetConfigId "nat option"
  | SetPanelCapacityWatts real

fun step :: "Spherical \<Rightarrow> string list \<Rightarrow> State \<Rightarrow> event \<Rightarrow> State option" where
  "step spherical palette s CallShowSolarPotential = Some (reactive (showSolarPotential s))"
| "step spherical palette s (FetchResolves bi) =
     (if fetchesInFlight s = 0 then None
      else Some (reactive (snd (fetchResolved spherical palette bi s))))"
| "step spherical palette s (FetchRejects e) =
     (if fetchesInFlight s = 0 then None else Some (reactive (fetchRejected e s)))"
| "step spherical palette s CallUpdatePanelVisibility = Some (updatePanelVisibility s)"
| "step spherical palette s CallUpdateSegmentVisibility = Some (updateSegmentVisibility s)"
| "step spherical palette s (SetShowPanels b) = Some (reactive (s\<lparr>showPanels := b\<rparr>))"
| "step spherical palette s (SetDisableAnimation b) = Some (reactive (s\<lparr>disableAnimation := b\<rparr>))"
| "step spherical palette s (SetShowSegments b) = Some (reactive (s\<lparr>showSegments := b\<rparr>))"
| "step spherical palette s (SetSegmentFilter f) = Some (reactive (s\<lparr>segmentFilter := f\<rparr>))"
| "step spherical palette s (SetConfigId k) = Some (reactive (s\<lparr>configId := k\<rparr>))"
| "step spherical palette s (SetPanelCapacityWatts w) =
     Some (reactive (s\<lparr>State.panelCapacityWatts := w\<rparr>))"

fun run :: "Spherical \<Rightarrow> string list \<Rightarrow> State \<Rightarrow> event list \<Rightarrow> State option" where
  "run spherical palette s [] = Some s"
| "run spherical palette s (e # es) =
     (case step spherical palette s e of
        None \<Rightarrow> None
      | Some s' \<Rightarrow> run spherical palette s' es)"

subsection \<open>The invariant on segment indices\<close>

text \<open>A segment index is valid when it is an index into \<open>roofSegmentStats\<close>.\<close>

definition validSegmentIndex :: "SolarPotential \<Rightarrow> int \<Rightarrow> bool" where
  "validSegmentIndex sp i = (0 \<le> i \<and> i < int (length (roofSegmentStats sp)))"

subsection \<open>The invariant on fetches\<close>

text \<open>
  At most one fetch is in flight, and \<open>requestSent\<close> is set exactly while one is.
\<close>

definition fetchInvariant :: "State \<Rightarrow> bool" where
  "fetchInvariant s = (fetchesInFlight s \<le> 1 \<and> (requestSent s \<longleftrightarrow> fetchesInFlight s = 1))"

subsection \<open>Sample data\<close>

text \<open>
  A stand-in for the spherical primitives, a building with three roof segments and three
  panels, on segments 0 and 2, by descending yield, and a state of the component on it.
\<close>

definition sampleSpherical :: Spherical where
  "sampleSpherical =
     \<lparr>computeOffset = (\<lambda>p d h. \<lparr>lat = lat p + d, lng = lng p + h\<rparr>),
      computeHeading = (\<lambda>p q. 0),
      computeDistanceBetween = (\<lambda>p q. \<bar>lat q - lat p\<bar> + \<bar>lng q - lng p\<bar>)\<rparr>"

definition samplePanel :: "real \<Rightarrow> int \<Rightarrow> real \<Rightarrow> SolarPanel" where
  "samplePanel northing seg energy =
     \<lparr>SolarPanel.center = \<lparr>latitude = northing, longitude = 0\<rparr>,
      orientation = ''LANDSCAPE'',
      SolarPanel.segmentIndex = seg,
      SolarPanel.yearlyEnergyDcKwh = energy\<rparr>"

definition sampleSegment :: RoofSegmentStats where
  "sampleSegment = \<lparr>RoofSegmentStats.center = \<lparr>latitude = 0, longitude = 0\<rparr>, azimuthDegrees = 0\<rparr>"

definition sampleBuilding :: "SolarPanel list \<Rightarrow> BuildingInsightsResponse" where
  "sampleBuilding panels =
     \<lparr>solarPotential =
        \<lparr>SolarPotential.panelCapacityWatts = 250,
         panelWidthMeters = 1,
         panelHeightMeters = 2,
         SolarPotential.solarPanels = panels,
         roofSegmentStats = [sampleSegment, sampleSegment, sampleSegment],
         solarPanelConfigs = [\<lparr>panelsCount = 2, SolarPanelConfig.yearlyEnergyDcKwh = 1000\<rparr>]\<rparr>\<rparr>"

definition samplePanels :: "SolarPanel list" where
  "samplePanels = [samplePanel 0 0 200, samplePanel 5 2 150, samplePanel 3 0 100]"

definition samplePolygon :: "int option \<Rightarrow> Polygon" where
  "samplePolygon seg = \<lparr>paths = [], fillColor = None, Polygon.onMap = False, Polygon.segmentIndex = seg\<rparr>"

definition sampleState :: State where
  "sampleState = initialState title (Some (sampleBuilding samplePanels)) (Some 0) 300 True"

definition sampleError :: RequestError where
  "sampleError = \<lparr>code = 404, status = ''NOT_FOUND'', message = ''Requested entity was not found.''\<rparr>"

section \<open>Properties\<close>

subsection \<open>Colour index\<close>

lemma colorIndex_linear:
  assumes "mn \<le> v" "v \<le> mx" "mn < mx"
  shows "colorIndex v mx mn = Some (round ((v - mn) / (mx - mn) * 255))"
    and "0 \<le> round ((v - mn) / (mx - mn) * 255)"
    and "round ((v - mn) / (mx - mn) * 255) \<le> 255"
proof -
  let ?q = "(v - mn) / (mx - mn)"
  have q0: "0 \<le> ?q" using assms by simp
  have q1: "?q \<le> 1" using assms by simp
  have "max 0 ?q = ?q" using q0 by (rule max_absorb2)
  moreover have "min 1 ?q = ?q" using q1 by (rule min_absorb2)
  moreover have "mx \<noteq> mn" using assms by simp
  ultimately have "normalize v mx mn = Some ?q"
    unfolding normalize_def by (simp only: if_False)
  then show "colorIndex v mx mn = Some (round (?q * 255))"
    unfolding colorIndex_def by (simp only: option.map)
  have "0 \<le> ?q * 255" using q0 by (intro mult_nonneg_nonneg) simp_all
  then have "round (0::real) \<le> round (?q * 255)" by (rule round_mono)
  then show "0 \<le> round (?q * 255)" by simp
  have "?q * 255 \<le> 1 * 255" using q1 by (intro mult_right_mono) simp_all
  then have "?q * 255 \<le> 255" by (simp only: mult_1)
  then have "round (?q * 255) \<le> round (255::real)" by (rule round_mono)
  then show "round (?q * 255) \<le> 255" by simp
qed

text \<open>
  C3: for every value \<open>v\<close> with \<open>min \<le> v \<le> max\<close> and \<open>min < max\<close>, the colour index
  \<open>round (normalize v max min * 255)\<close> is defined, is the rounded linear position of \<open>v\<close>
  and lies within 0 and 255; the index of \<open>min\<close> is 0 and the index of \<open>max\<close> is 255.
\<close>

theorem colorIndex_in_palette_range:
  "mn \<le> v \<Longrightarrow> v \<le> mx \<Longrightarrow> mn < mx \<Longrightarrow>
     (\<exists>i. colorIndex v mx mn = Some i \<and> i = round ((v - mn) / (mx - mn) * 255) \<and> 0 \<le> i \<and> i \<le> 255)
     \<and> colorIndex mn mx mn = Some 0
     \<and> colorIndex mx mx mn = Some 255"
proof -
  assume a: "mn \<le> v" "v \<le> mx" "mn < mx"
  have 1: "\<exists>i. colorIndex v mx mn = Some i \<and> i = round ((v - mn) / (mx - mn) * 255) \<and> 0 \<le> i \<and> i \<le> 255"
    using colorIndex_linear[OF a] by simp
  have 2: "colorIndex mn mx mn = Some 0"
    using a by (simp add: colorIndex_def normalize_def)
  have 3: "colorIndex mx mx mn = Some 255"
    using a by (simp add: colorIndex_def normalize_def)
  show ?thesis using 1 2 3 by simp
qed

theorem colorIndex_in_palette_range_witness:
  "colorIndex 150 200 100 = Some 128 \<and> colorIndex 100 200 100 = Some 0 \<and> colorIndex 200 200 100 = Some 255"
  using colorIndex_in_palette_range[of 100 150 200] by (simp add: round_def)

subsection \<open>Segment bounding box\<close>

lemma fold_tighten_Fin:
  "fold tighten ps (Fin a, Fin b, Fin c, Fin d) =
     (Fin (fold min (map fst ps) a), Fin (fold max (map fst ps) b),
      Fin (fold min (map snd ps) c), Fin (fold max (map snd ps) d))"
  by (induction ps arbitrary: a b c d) (simp_all add: tighten_def min.commute max.commute)

lemma tightBounds_nonempty:
  assumes "ps \<noteq> []"
  shows "tightBounds ps =
     (Fin (Min (fst ` set ps)), Fin (Max (fst ` set ps)),
      Fin (Min (snd ` set ps)), Fin (Max (snd ` set ps)))"
proof -
  obtain p qs where ps: "ps = p # qs" using assms by (cases ps) auto
  have "tightBounds ps = fold tighten qs (Fin (fst p), Fin (fst p), Fin (snd p), Fin (snd p))"
    by (simp add: ps tightBounds_def tighten_def)
  also have "\<dots> = (Fin (fold min (map fst qs) (fst p)), Fin (fold max (map fst qs) (fst p)),
      Fin (fold min (map snd qs) (snd p)), Fin (fold max (map snd qs) (snd p)))"
    by (rule fold_tighten_Fin)
  also have "\<dots> = (Fin (Min (set (fst p # map fst qs))), Fin (Max (set (fst p # map fst qs))),
      Fin (Min (set (snd p # map snd qs))), Fin (Max (set (snd p # map snd qs))))"
    by (simp only: Min.set_eq_fold Max.set_eq_fold)
  finally show ?thesis by (simp add: ps)
qed








subsection \<open>Segment index lookup\<close>

lemma azimuthAt_valid:
  "validSegmentIndex sp i \<Longrightarrow> azimuthAt (roofSegmentStats sp) i = Inr (azimuthDegrees (roofSegmentStats sp ! nat i))"
  by (simp add: validSegmentIndex_def azimuthAt_def segmentInfoAt_def)

lemma azimuthAt_invalid:
  "\<not> validSegmentIndex sp i \<Longrightarrow> azimuthAt (roofSegmentStats sp) i = Inl TypeError"
  by (simp add: validSegmentIndex_def azimuthAt_def segmentInfoAt_def)

text \<open>
  C4: for a panel whose \<open>segmentIndex\<close> is a valid index into \<open>roofSegmentStats\<close> the
  azimuth lookup succeeds and the panel gets its polygon; the lookup has no bounds guard,
  so for a panel whose \<open>segmentIndex\<close> is out of range the lookup, the polygon of the panel
  and the outline of its segment all end in the error branch, with the \<open>TypeError\<close> of the
  language and no error of the component's own.
\<close>

theorem segment_lookup_unguarded:
  "(validSegmentIndex sp (SolarPanel.segmentIndex panel) \<longrightarrow>
      azimuthAt (roofSegmentStats sp) (SolarPanel.segmentIndex panel) =
        Inr (azimuthDegrees (roofSegmentStats sp ! nat (SolarPanel.segmentIndex panel)))
      \<and> (\<exists>polygon. panelPolygon spherical palette sp mx mn panel = Inr polygon))
   \<and> (\<not> validSegmentIndex sp (SolarPanel.segmentIndex panel) \<longrightarrow>
      azimuthAt (roofSegmentStats sp) (SolarPanel.segmentIndex panel) = Inl TypeError
      \<and> panelPolygon spherical palette sp mx mn panel = Inl TypeError
      \<and> segmentOutline spherical sp (SolarPanel.segmentIndex panel, panels) = Inl TypeError)"
proof (cases "validSegmentIndex sp (SolarPanel.segmentIndex panel)")
  case True
  then show ?thesis
    by (simp add: azimuthAt_valid panelPolygon_def Let_def)
next
  case False
  then have "segmentInfoAt (roofSegmentStats sp) (SolarPanel.segmentIndex panel) = None"
    by (simp add: validSegmentIndex_def segmentInfoAt_def)
  then have "segmentOutline spherical sp (SolarPanel.segmentIndex panel, panels) = Inl TypeError"
    by (simp add: segmentOutline_def)
  with False show ?thesis
    by (simp add: azimuthAt_invalid panelPolygon_def Let_def)
qed

theorem segment_lookup_unguarded_witness:
  "azimuthAt (roofSegmentStats (solarPotential (sampleBuilding samplePanels))) 2 = Inr 0
   \<and> panelPolygon sampleSpherical [] (solarPotential (sampleBuilding samplePanels)) 200 100
        (samplePanel 4 3 120) = Inl TypeError
   \<and> segmentOutline sampleSpherical (solarPotential (sampleBuilding samplePanels))
        (3, [samplePanel 4 3 120]) = Inl TypeError"
  using segment_lookup_unguarded[of "solarPotential (sampleBuilding samplePanels)" "samplePanel 5 2 150"
      sampleSpherical "[]" 200 100 "[]"]
    segment_lookup_unguarded[of "solarPotential (sampleBuilding samplePanels)" "samplePanel 4 3 120"
      sampleSpherical "[]" 200 100 "[samplePanel 4 3 120]"]
  by (simp add: validSegmentIndex_def sampleBuilding_def samplePanel_def sampleSegment_def)

subsection \<open>Capacity scaling\<close>

text \<open>
  C7: with building insights present, a default panel capacity other than 0 and a selected
  configuration, the displayed yearly energy is the raw yield of the configuration times
  \<open>selected capacity / default capacity\<close>; with default 250 W, selected 300 W and a raw
  yield of 1000 kWh the gauge shows 1200 kWh.
\<close>

theorem gauge_scaled_by_capacity_ratio:
  "buildingInsights s = Some bi \<Longrightarrow>
   SolarPotential.panelCapacityWatts (solarPotential bi) \<noteq> 0 \<Longrightarrow>
   configId s = Some k \<Longrightarrow>
   k < length (solarPanelConfigs (solarPotential bi)) \<Longrightarrow>
   requestError s = None \<Longrightarrow>
   expandedSection s = title \<Longrightarrow>
   panelCapacityRatio (reactive s) =
     State.panelCapacityWatts s / SolarPotential.panelCapacityWatts (solarPotential bi)
   \<and> gaugeYearlyEnergy (reactive s) =
     Some (SolarPanelConfig.yearlyEnergyDcKwh (solarPanelConfigs (solarPotential bi) ! k)
           * (State.panelCapacityWatts s / SolarPotential.panelCapacityWatts (solarPotential bi)))"
  by (simp add: reactive_def gaugeYearlyEnergy_def Let_def)

theorem gauge_scaled_by_capacity_ratio_witness:
  "gaugeYearlyEnergy (reactive (initialState title (Some (sampleBuilding samplePanels)) (Some 0) 300 True))
     = Some 1200"
  using gauge_scaled_by_capacity_ratio[of "initialState title (Some (sampleBuilding samplePanels)) (Some 0) 300 True"
      "sampleBuilding samplePanels" 0]
  by (simp add: initialState_def sampleBuilding_def)

subsection \<open>Panel visibility\<close>

text \<open>
  C10: for every index \<open>i\<close> of the rendered panel list, after \<open>updatePanelVisibility\<close> the
  panel is attached to the map iff \<open>showPanels\<close> holds when animation is disabled, and iff
  \<open>showPanels\<close> holds and \<open>i < panelConfig.panelsCount\<close> when animation is enabled and a
  panel configuration is selected; with animation enabled and no configuration it is
  detached.
\<close>

theorem panel_attached_iff:
  "i < length (State.solarPanels s) \<Longrightarrow>
   length (State.solarPanels (updatePanelVisibility s)) = length (State.solarPanels s)
   \<and> (disableAnimation s \<longrightarrow>
        Polygon.onMap (State.solarPanels (updatePanelVisibility s) ! i) = showPanels s)
   \<and> (\<not> disableAnimation s \<longrightarrow>
        (\<forall>c. panelConfig s = Some c \<longrightarrow>
           Polygon.onMap (State.solarPanels (updatePanelVisibility s) ! i) =
             (showPanels s \<and> int i < panelsCount c))
        \<and> (panelConfig s = None \<longrightarrow>
           \<not> Polygon.onMap (State.solarPanels (updatePanelVisibility s) ! i)))"
  by (auto simp add: updatePanelVisibility_def nth_enumerate_eq)

theorem panel_attached_iff_witness:
  "map Polygon.onMap
     (State.solarPanels
        (updatePanelVisibility
           (sampleState\<lparr>State.solarPanels := [samplePolygon None, samplePolygon None, samplePolygon None],
              disableAnimation := False,
              panelConfig := Some \<lparr>panelsCount = 2, SolarPanelConfig.yearlyEnergyDcKwh = 1000\<rparr>\<rparr>)))
     = [True, True, False]
   \<and> map Polygon.onMap
     (State.solarPanels
        (updatePanelVisibility
           (sampleState\<lparr>State.solarPanels := [samplePolygon None, samplePolygon None, samplePolygon None],
              showPanels := False\<rparr>)))
     = [False, False, False]"
  using panel_attached_iff[of 2 "sampleState\<lparr>State.solarPanels := [samplePolygon None, samplePolygon None, samplePolygon None],
              disableAnimation := False,
              panelConfig := Some \<lparr>panelsCount = 2, SolarPanelConfig.yearlyEnergyDcKwh = 1000\<rparr>\<rparr>"]
    panel_attached_iff[of 0 "sampleState\<lparr>State.solarPanels := [samplePolygon None, samplePolygon None, samplePolygon None],
              showPanels := False\<rparr>"]
  by (simp add: updatePanelVisibility_def sampleState_def initialState_def samplePolygon_def enumerate_eq_zip upt_rec)

subsection \<open>A building with no panel\<close>

text \<open>
  C9: on a building with zero solar panels the render cycle does not degrade to fewer
  shapes: reading \<open>minEnergy\<close> from the last panel throws, the call ends with a
  \<open>TypeError\<close>, and the panel list of the component is left as it was.
\<close>

theorem zero_panels_raises:
  "createPanels spherical palette (sp\<lparr>SolarPotential.solarPanels := []\<rparr>) = Inl TypeError
   \<and> fst (fetchResolved spherical palette \<lparr>solarPotential = sp\<lparr>SolarPotential.solarPanels := []\<rparr>\<rparr> s)
       = Some TypeError
   \<and> State.solarPanels (snd (fetchResolved spherical palette \<lparr>solarPotential = sp\<lparr>SolarPotential.solarPanels := []\<rparr>\<rparr> s))
       = State.solarPanels s"
  by (simp add: createPanels_def fetchResolved_def Let_def)

subsection \<open>Panel rings\<close>

text \<open>
  The path of a panel polygon: five points, each the offset of the panel centre by the
  polar form of a corner, turned by the orientation and the azimuth of the segment, the
  last point being the first again.
\<close>

lemma panelPolygon_paths:
  assumes "panelPolygon spherical palette sp mx mn panel = Inr polygon"
  shows "\<exists>azimuth. azimuthAt (roofSegmentStats sp) (SolarPanel.segmentIndex panel) = Inr azimuth
           \<and> paths polygon =
               map (\<lambda>(x, y). computeOffset spherical (toLiteral (SolarPanel.center panel))
                      (sqrt (x * x + y * y))
                      (atan2 y x * (180 / pi)
                       + (if SolarPanel.orientation panel = ''PORTRAIT'' then 90 else 0) + azimuth))
                 (panelPoints (panelWidthMeters sp / 2) (panelHeightMeters sp / 2))"
proof (cases "azimuthAt (roofSegmentStats sp) (SolarPanel.segmentIndex panel)")
  case (Inl e)
  then show ?thesis using assms by (simp add: panelPolygon_def Let_def)
next
  case (Inr azimuth)
  then show ?thesis using assms by (auto simp add: panelPolygon_def Let_def)
qed

lemma panelPolygon_ring:
  assumes "panelPolygon spherical palette sp mx mn panel = Inr polygon"
  shows "length (paths polygon) = 5 \<and> hd (paths polygon) = last (paths polygon)"
proof -
  obtain f where "paths polygon = map f (panelPoints (panelWidthMeters sp / 2) (panelHeightMeters sp / 2))"
    using panelPolygon_paths[OF assms] by blast
  then show ?thesis by (simp add: panelPoints_def)
qed

subsection \<open>Segment outlines\<close>

lemma map_fst_push:
  "map fst (map (\<lambda>(k', ps). if k' = k then (k', ps @ [panel]) else (k', ps)) m) = map fst m"
  by (induction m) auto

lemma groupPanel_keys:
  "map fst (groupPanel p m) =
     (if SolarPanel.segmentIndex p \<in> set (map fst m) then map fst m
      else map fst m @ [SolarPanel.segmentIndex p])"
  unfolding groupPanel_def Let_def map_fst_push by simp

lemma groupPanel_nonempty:
  "\<forall>e \<in> set m. snd e \<noteq> [] \<Longrightarrow> \<forall>e \<in> set (groupPanel p m). snd e \<noteq> []"
  by (auto simp add: groupPanel_def Let_def split: if_splits)

lemma fold_groupPanel_keys:
  "distinct (map fst m) \<Longrightarrow>
     distinct (map fst (fold groupPanel ps m))
     \<and> set (map fst (fold groupPanel ps m)) = set (map fst m) \<union> SolarPanel.segmentIndex ` set ps"
proof (induction ps arbitrary: m)
  case Nil
  then show ?case by simp
next
  case (Cons p ps)
  have d: "distinct (map fst (groupPanel p m))"
    using Cons.prems by (simp add: groupPanel_keys)
  have s: "set (map fst (groupPanel p m)) = insert (SolarPanel.segmentIndex p) (set (map fst m))"
    by (auto simp add: groupPanel_keys)
  show ?case using Cons.IH[OF d] s by auto
qed

lemma fold_groupPanel_nonempty:
  "\<forall>e \<in> set m. snd e \<noteq> [] \<Longrightarrow> \<forall>e \<in> set (fold groupPanel ps m). snd e \<noteq> []"
proof (induction ps arbitrary: m)
  case Nil
  then show ?case by simp
next
  case (Cons p ps)
  from Cons.prems have "\<forall>e \<in> set (groupPanel p m). snd e \<noteq> []" by (rule groupPanel_nonempty)
  then show ?case using Cons.IH by simp
qed

lemma segmentPanels_keys:
  "distinct (map fst (segmentPanels panels))"
  "set (map fst (segmentPanels panels)) = SolarPanel.segmentIndex ` set panels"
  using fold_groupPanel_keys[of "[]" panels] by (simp_all add: segmentPanels_def)

lemma segmentPanels_nonempty: "\<forall>e \<in> set (segmentPanels panels). snd e \<noteq> []"
  using fold_groupPanel_nonempty[of "[]" panels] by (simp add: segmentPanels_def)

lemma segmentBox_nonempty: "ps \<noteq> [] \<Longrightarrow> \<exists>b. segmentBox ps = Some b"
  by (simp add: segmentBox_def tightBounds_nonempty)

lemma segmentOutline_valid:
  assumes "validSegmentIndex sp k" "panels \<noteq> []"
  shows "\<exists>polygon label. segmentOutline spherical sp (k, panels) = Inr (Some (polygon, label))
           \<and> Polygon.segmentIndex polygon = Some k \<and> Marker.segmentIndex label = k
           \<and> length (paths polygon) = 4"
proof -
  let ?info = "roofSegmentStats sp ! nat k"
  let ?rel = "map (relativePosition spherical (toLiteral (RoofSegmentStats.center ?info))
                (azimuthDegrees ?info)) panels"
  have info: "segmentInfoAt (roofSegmentStats sp) k = Some ?info"
    using assms(1) by (simp add: validSegmentIndex_def segmentInfoAt_def)
  have "?rel \<noteq> []" using assms(2) by simp
  then obtain b where b: "segmentBox ?rel = Some b" using segmentBox_nonempty by blast
  show ?thesis using assms(2) info b
    by (simp add: segmentOutline_def Let_def corners_def)
qed

lemma outlineAll_valid:
  "\<forall>e \<in> set entries. validSegmentIndex sp (fst e) \<and> snd e \<noteq> [] \<Longrightarrow>
     \<exists>ps ls. outlineAll spherical sp entries (polygons, labels) = (None, polygons @ ps, labels @ ls)
        \<and> map Polygon.segmentIndex ps = map (\<lambda>e. Some (fst e)) entries
        \<and> map Marker.segmentIndex ls = map fst entries"
proof (induction entries arbitrary: polygons labels)
  case Nil
  then show ?case by simp
next
  case (Cons entry entries)
  obtain k panels where entry: "entry = (k, panels)" by (cases entry)
  have "validSegmentIndex sp k" "panels \<noteq> []" using Cons.prems entry by simp_all
  then obtain polygon label where
    o: "segmentOutline spherical sp (k, panels) = Inr (Some (polygon, label))"
      "Polygon.segmentIndex polygon = Some k" "Marker.segmentIndex label = k"
    using segmentOutline_valid by blast
  have "\<forall>e \<in> set entries. validSegmentIndex sp (fst e) \<and> snd e \<noteq> []" using Cons.prems by simp
  from Cons.IH[OF this, of "polygons @ [polygon]" "labels @ [label]"]
  obtain ps ls where
    r: "outlineAll spherical sp entries (polygons @ [polygon], labels @ [label]) =
          (None, (polygons @ [polygon]) @ ps, (labels @ [label]) @ ls)"
       "map Polygon.segmentIndex ps = map (\<lambda>e. Some (fst e)) entries"
       "map Marker.segmentIndex ls = map fst entries"
    by blast
  have "outlineAll spherical sp (entry # entries) (polygons, labels) =
          (None, polygons @ (polygon # ps), labels @ (label # ls))"
    using o(1) r(1) by (simp add: entry)
  moreover have "map Polygon.segmentIndex (polygon # ps) = map (\<lambda>e. Some (fst e)) (entry # entries)"
    using o(2) r(2) by (simp add: entry)
  moreover have "map Marker.segmentIndex (label # ls) = map fst (entry # entries)"
    using o(3) r(3) by (simp add: entry)
  ultimately show ?case by blast
qed

lemma distinct_occurs_once:
  "distinct ks \<Longrightarrow> length (filter (\<lambda>x. x = k) ks) = (if k \<in> set ks then 1 else 0)"
  by (induction ks) auto

text \<open>
  C6: when every panel has a valid segment index, the segment loop raises no error and
  pushes, for every segment index, exactly one outline and one label if the segment has
  at least one panel, and none if its set of member panels is empty; an entry with no
  panel is skipped by the guard of the loop body.
\<close>

theorem one_outline_per_populated_segment:
  "\<forall>p \<in> set (SolarPotential.solarPanels sp). validSegmentIndex sp (SolarPanel.segmentIndex p) \<Longrightarrow>
     \<exists>polygons labels. createSegments spherical sp = (None, polygons, labels)
       \<and> (\<forall>k. length (filter (\<lambda>polygon. Polygon.segmentIndex polygon = Some k) polygons) =
                 (if k \<in> SolarPanel.segmentIndex ` set (SolarPotential.solarPanels sp) then 1 else 0)
              \<and> length (filter (\<lambda>label. Marker.segmentIndex label = k) labels) =
                 (if k \<in> SolarPanel.segmentIndex ` set (SolarPotential.solarPanels sp) then 1 else 0)
              \<and> (validSegmentIndex sp k \<longrightarrow> segmentOutline spherical sp (k, []) = Inr None))"
proof -
  assume valid: "\<forall>p \<in> set (SolarPotential.solarPanels sp). validSegmentIndex sp (SolarPanel.segmentIndex p)"
  let ?panels = "SolarPotential.solarPanels sp"
  let ?entries = "segmentPanels ?panels"
  have keys: "set (map fst ?entries) = SolarPanel.segmentIndex ` set ?panels"
    and dist: "distinct (map fst ?entries)"
    by (rule segmentPanels_keys)+
  have "\<forall>e \<in> set ?entries. validSegmentIndex sp (fst e)"
  proof
    fix e assume "e \<in> set ?entries"
    then have "fst e \<in> SolarPanel.segmentIndex ` set ?panels" using keys by force
    then show "validSegmentIndex sp (fst e)" using valid by auto
  qed
  then have "\<forall>e \<in> set ?entries. validSegmentIndex sp (fst e) \<and> snd e \<noteq> []"
    using segmentPanels_nonempty[of ?panels] by blast
  from outlineAll_valid[OF this, of spherical "[]" "[]"]
  obtain ps ls where
    r: "createSegments spherical sp = (None, ps, ls)"
       "map Polygon.segmentIndex ps = map (\<lambda>e. Some (fst e)) ?entries"
       "map Marker.segmentIndex ls = map fst ?entries"
    by (auto simp add: createSegments_def)
  have count: "\<And>k. length (filter (\<lambda>x. x = k) (map fst ?entries)) =
      (if k \<in> SolarPanel.segmentIndex ` set ?panels then 1 else 0)"
    using distinct_occurs_once[OF dist] keys by simp
  have p: "length (filter (\<lambda>polygon. Polygon.segmentIndex polygon = Some k) ps) =
      (if k \<in> SolarPanel.segmentIndex ` set ?panels then 1 else 0)" for k
  proof -
    have "length (filter (\<lambda>polygon. Polygon.segmentIndex polygon = Some k) ps) =
        length (filter (\<lambda>x. x = Some k) (map Polygon.segmentIndex ps))"
      by (simp add: o_def)
    also have "\<dots> = length (filter (\<lambda>x. x = k) (map fst ?entries))"
      unfolding r(2) by (simp add: o_def)
    finally show ?thesis using count by simp
  qed
  have l: "length (filter (\<lambda>label. Marker.segmentIndex label = k) ls) =
      (if k \<in> SolarPanel.segmentIndex ` set ?panels then 1 else 0)" for k
  proof -
    have "length (filter (\<lambda>label. Marker.segmentIndex label = k) ls) =
        length (filter (\<lambda>x. x = k) (map Marker.segmentIndex ls))"
      by (simp add: o_def)
    then show ?thesis using count unfolding r(3) by simp
  qed
  have g: "validSegmentIndex sp k \<longrightarrow> segmentOutline spherical sp (k, []) = Inr None" for k
    by (simp add: segmentOutline_def validSegmentIndex_def segmentInfoAt_def)
  show ?thesis using r(1) p l g by blast
qed

theorem one_outline_per_populated_segment_witness:
  "map Polygon.segmentIndex (fst (snd (createSegments sampleSpherical (solarPotential (sampleBuilding samplePanels)))))
     = [Some 0, Some 2]
   \<and> map Marker.segmentIndex (snd (snd (createSegments sampleSpherical (solarPotential (sampleBuilding samplePanels)))))
     = [0, 2]
   \<and> fst (createSegments sampleSpherical (solarPotential (sampleBuilding samplePanels))) = None"
  using one_outline_per_populated_segment[of "solarPotential (sampleBuilding samplePanels)" sampleSpherical]
  by (simp add: createSegments_def segmentPanels_def groupPanel_def segmentOutline_def segmentInfoAt_def
      segmentBox_def tightBounds_def tighten_def relativePosition_def toLiteral_def
      sampleBuilding_def samplePanels_def samplePanel_def sampleSegment_def sampleSpherical_def
      validSegmentIndex_def Let_def)

subsection \<open>Segment visibility\<close>









subsection \<open>One fetch at a time\<close>

lemma reactive_requestSent: "requestSent (reactive s) = requestSent s"
  by (simp add: reactive_def Let_def split: option.splits)

lemma reactive_fetchesInFlight: "fetchesInFlight (reactive s) = fetchesInFlight s"
  by (simp add: reactive_def Let_def split: option.splits)

lemma fetchInvariant_reactive: "fetchInvariant (reactive s) = fetchInvariant s"
  by (simp add: fetchInvariant_def reactive_requestSent reactive_fetchesInFlight)

lemma fetchInvariant_initialState: "fetchInvariant (initialState sec bi cid w sh)"
  by (simp add: fetchInvariant_def initialState_def)

lemma fetchInvariant_showSolarPotential:
  "fetchInvariant s \<Longrightarrow> fetchInvariant (showSolarPotential s)"
  by (auto simp add: fetchInvariant_def showSolarPotential_def)

lemma fetchResolved_flags:
  "requestSent (snd (fetchResolved spherical palette bi s)) = False"
  "fetchesInFlight (snd (fetchResolved spherical palette bi s)) = fetchesInFlight s - 1"
  by (simp_all add: fetchResolved_def Let_def split: sum.splits prod.splits)

lemma fetchInvariant_fetchResolved:
  "fetchInvariant s \<Longrightarrow> fetchInvariant (snd (fetchResolved spherical palette bi s))"
  by (auto simp add: fetchInvariant_def fetchResolved_flags)

lemma fetchInvariant_fetchRejected:
  "fetchInvariant s \<Longrightarrow> fetchInvariant (fetchRejected e s)"
  by (auto simp add: fetchInvariant_def fetchRejected_def)

lemma fetchInvariant_updatePanelVisibility:
  "fetchInvariant (updatePanelVisibility s) = fetchInvariant s"
  by (simp add: fetchInvariant_def updatePanelVisibility_def)

lemma fetchInvariant_updateSegmentVisibility:
  "fetchInvariant (updateSegmentVisibility s) = fetchInvariant s"
  by (simp add: fetchInvariant_def updateSegmentVisibility_def Let_def)

lemma fetchInvariant_step:
  "fetchInvariant s \<Longrightarrow> step spherical palette s e = Some s' \<Longrightarrow> fetchInvariant s'"
proof (cases e)
  case CallShowSolarPotential
  assume "fetchInvariant s" "step spherical palette s e = Some s'"
  with CallShowSolarPotential show ?thesis
    by (auto simp add: fetchInvariant_reactive fetchInvariant_showSolarPotential)
next
  case (FetchResolves bi)
  assume "fetchInvariant s" "step spherical palette s e = Some s'"
  with FetchResolves show ?thesis
    by (auto simp add: fetchInvariant_reactive fetchInvariant_fetchResolved split: if_splits)
next
  case (FetchRejects err)
  assume "fetchInvariant s" "step spherical palette s e = Some s'"
  with FetchRejects show ?thesis
    by (auto simp add: fetchInvariant_reactive fetchInvariant_fetchRejected split: if_splits)
next
  case CallUpdatePanelVisibility
  assume "fetchInvariant s" "step spherical palette s e = Some s'"
  with CallUpdatePanelVisibility show ?thesis
    by (auto simp add: fetchInvariant_updatePanelVisibility)
next
  case CallUpdateSegmentVisibility
  assume "fetchInvariant s" "step spherical palette s e = Some s'"
  with CallUpdateSegmentVisibility show ?thesis
    by (auto simp add: fetchInvariant_updateSegmentVisibility)
qed (auto simp add: fetchInvariant_reactive, auto simp add: fetchInvariant_def)

lemma fetchInvariant_run:
  "fetchInvariant s \<Longrightarrow> run spherical palette s es = Some s' \<Longrightarrow> fetchInvariant s'"
proof (induction es arbitrary: s)
  case Nil
  then show ?case by simp
next
  case (Cons e es)
  then obtain s1 where s1: "step spherical palette s e = Some s1" "run spherical palette s1 es = Some s'"
    by (auto split: option.splits)
  from Cons.prems(1) s1(1) have "fetchInvariant s1" by (rule fetchInvariant_step)
  then show ?case using s1(2) by (rule Cons.IH)
qed

text \<open>
  C8: in every state the component reaches from its initial state, at most one fetch is
  in flight and \<open>requestSent\<close> is set exactly then; while it is set, a call of
  \<open>showSolarPotential\<close> changes nothing (no shape is cleared, no fetch is issued), while
  it is not set, a call issues the one fetch, and the flag is cleared when the fetch
  resolves and when it fails.
\<close>

theorem at_most_one_fetch_in_flight:
  "run spherical palette (initialState sec insights cid watts shown) es = Some s \<Longrightarrow>
     fetchesInFlight s \<le> 1
     \<and> (requestSent s \<longleftrightarrow> fetchesInFlight s = 1)
     \<and> (requestSent s \<longrightarrow> showSolarPotential s = s)
     \<and> (\<not> requestSent s \<longrightarrow>
          requestSent (showSolarPotential s) \<and> fetchesInFlight (showSolarPotential s) = 1)
     \<and> \<not> requestSent (snd (fetchResolved spherical palette bi s))
     \<and> \<not> requestSent (fetchRejected e s)"
proof -
  assume r: "run spherical palette (initialState sec insights cid watts shown) es = Some s"
  have inv: "fetchInvariant s"
    using fetchInvariant_initialState r by (rule fetchInvariant_run)
  have a: "fetchesInFlight s \<le> 1 \<and> (requestSent s \<longleftrightarrow> fetchesInFlight s = 1)"
    using inv by (simp add: fetchInvariant_def)
  have b: "requestSent s \<longrightarrow> showSolarPotential s = s"
    by (simp add: showSolarPotential_def)
  have c: "\<not> requestSent s \<longrightarrow>
          requestSent (showSolarPotential s) \<and> fetchesInFlight (showSolarPotential s) = 1"
    using a by (auto simp add: showSolarPotential_def)
  have d: "\<not> requestSent (snd (fetchResolved spherical palette bi s))"
    by (simp add: fetchResolved_flags)
  have e: "\<not> requestSent (fetchRejected e s)"
    by (simp add: fetchRejected_def)
  show ?thesis using a b c d e by blast
qed

theorem at_most_one_fetch_in_flight_witness:
  "map_option (\<lambda>s. (requestSent s, fetchesInFlight s))
     (run sampleSpherical [] sampleState
        [CallShowSolarPotential, CallShowSolarPotential, FetchRejects sampleError,
         CallShowSolarPotential, CallShowSolarPotential])
     = Some (True, 1)
   \<and> run sampleSpherical [] sampleState
        [CallShowSolarPotential, FetchRejects sampleError, FetchRejects sampleError] = None"
  using at_most_one_fetch_in_flight[of sampleSpherical "[]" title "Some (sampleBuilding samplePanels)"
      "Some 0" 300 True
      "[CallShowSolarPotential, CallShowSolarPotential, FetchRejects sampleError,
         CallShowSolarPotential, CallShowSolarPotential]"
      "the (run sampleSpherical [] sampleState
        [CallShowSolarPotential, CallShowSolarPotential, FetchRejects sampleError,
         CallShowSolarPotential, CallShowSolarPotential])"]
  by (simp add: sampleState_def initialState_def showSolarPotential_def fetchRejected_def
      reactive_def)

end
